theory Spec2Isabelle
  imports Complex_Main "HOL-Library.Multiset"
begin

section \<open>Python values used by the classifier\<close>

text \<open>
  The program is Python. Its floats are modelled as exact reals: the claims are about the
  formulas, and every constant and threshold of the program is a short decimal. Its
  dictionaries that are used as structs become records; those used as tables become maps.
  An exception that escapes a function is a value \<open>Inl e\<close> of the result.
\<close>

datatype py_error = KeyError

text \<open>Python's \<^verbatim>\<open>int(x)\<close> on a float truncates toward zero.\<close>

definition py_int :: "real \<Rightarrow> int" where
  "py_int x = (if 0 \<le> x then \<lfloor>x\<rfloor> else \<lceil>x\<rceil>)"

text \<open>
  Python's \<^verbatim>\<open>round(x, 4)\<close>: the nearest multiple of \<open>1/10000\<close>; a value exactly
  halfway between two of them goes to the even one.
\<close>

definition py_round4 :: "real \<Rightarrow> real" where
  "py_round4 x =
     (let y = x * 10000;
          f = \<lfloor>y\<rfloor>;
          r = y - of_int f
      in of_int (if r < 1/2 then f
                 else if 1/2 < r then f + 1
                 else if even f then f else f + 1) / 10000)"

text \<open>Truthiness of an \<^verbatim>\<open>Optional[str]\<close>: \<^verbatim>\<open>None\<close> and the empty string are falsy.\<close>

fun truthy_str :: "string option \<Rightarrow> bool" where
  "truthy_str None = False"
| "truthy_str (Some s) = (s \<noteq> [])"

section \<open>Configuration (config.py)\<close>

definition CATEGORIES :: "string list" where
  "CATEGORIES = [''PUBLIC'', ''SENSITIVE'', ''CONFIDENTIAL'', ''UNSAFE'']"

record config =
  CONFIDENCE_THRESHOLD :: real
  DUAL_VALIDATION_ENABLED :: bool

text \<open>The values \<^verbatim>\<open>Config\<close> takes when the environment sets neither variable.\<close>

definition default_config :: config where
  "default_config = \<lparr>CONFIDENCE_THRESHOLD = 9/10, DUAL_VALIDATION_ENABLED = True\<rparr>"

section \<open>AccuracyTracker (accuracy\_tracker.py)\<close>

record bin_entry =
  predicted :: string
  ground_truth :: "string option"
  correct :: "bool option"
  entry_document_id :: string

record category_stats =
  true_positives :: int
  false_positives :: int
  false_negatives :: int
  precision :: real
  recall :: real
  f1_score :: real

record hitl_correction =
  corr_document_id :: string
  original :: string
  corrected :: string
  corr_confidence :: real
  timestamp :: real

text \<open>
  \<^verbatim>\<open>self.metrics\<close>. A confidence bin is keyed in the program by \<^verbatim>\<open>str(b)\<close> for the
  float \<open>b = int(confidence * 10) / 10\<close> and read back with \<^verbatim>\<open>float(bin_str)\<close>; the model
  keys it by \<open>b\<close> itself. \<open>defaulting\<close> tells which kind of dictionary the tables are:
  \<^verbatim>\<open>_load_metrics\<close> builds \<^verbatim>\<open>defaultdict\<close>s when there is no metrics file (a missing key
  is created on access), and returns what \<^verbatim>\<open>json.load\<close> read otherwise: plain
  dictionaries, where reading a missing key raises \<^verbatim>\<open>KeyError\<close>.
\<close>

record metrics =
  total_predictions :: int
  total_ground_truth :: int
  confusion_matrix :: "string \<rightharpoonup> (string \<rightharpoonup> int)"
  confidence_bins :: "real \<rightharpoonup> bin_entry list"
  category_stats :: "string \<rightharpoonup> category_stats"
  hitl_corrections :: "hitl_correction list"
  defaulting :: bool

definition default_stats :: category_stats where
  "default_stats = \<lparr>true_positives = 0, false_positives = 0, false_negatives = 0,
     precision = 0, recall = 0, f1_score = 0\<rparr>"

text \<open>\<^verbatim>\<open>_load_metrics\<close> when no metrics file exists.\<close>

definition load_metrics :: metrics where
  "load_metrics = \<lparr>total_predictions = 0, total_ground_truth = 0,
     confusion_matrix = Map.empty, confidence_bins = Map.empty,
     category_stats = Map.empty, hitl_corrections = [], defaulting = True\<rparr>"

text \<open>
  \<^verbatim>\<open>d[k]\<close>: the value stored under \<open>k\<close>; when there is none, the default \<open>v0\<close> of a
  \<^verbatim>\<open>defaultdict\<close> (which the caller then stores), or \<^verbatim>\<open>KeyError\<close> on a plain dictionary.
\<close>

definition getitem :: "bool \<Rightarrow> 'v \<Rightarrow> ('k \<rightharpoonup> 'v) \<Rightarrow> 'k \<Rightarrow> py_error + 'v" where
  "getitem dflt v0 d k =
     (case d k of Some v \<Rightarrow> Inr v
      | None \<Rightarrow> if dflt then Inr v0 else Inl KeyError)"

text \<open>\<^verbatim>\<open>self.metrics['category_stats'][category][field] += 1\<close>, for the three counters.\<close>

datatype counter = TP | FP | FN

fun bump :: "counter \<Rightarrow> category_stats \<Rightarrow> category_stats" where
  "bump TP s = s\<lparr>true_positives := true_positives s + 1\<rparr>"
| "bump FP s = s\<lparr>false_positives := false_positives s + 1\<rparr>"
| "bump FN s = s\<lparr>false_negatives := false_negatives s + 1\<rparr>"

definition incr_stat :: "counter \<Rightarrow> string \<Rightarrow> metrics \<Rightarrow> py_error + metrics" where
  "incr_stat c category m =
     (case getitem (defaulting m) default_stats (category_stats m) category of
        Inl e \<Rightarrow> Inl e
      | Inr s \<Rightarrow> Inr (m\<lparr>category_stats := (category_stats m)(category \<mapsto> bump c s)\<rparr>))"

text \<open>The loop \<^verbatim>\<open>for category in Config.CATEGORIES\<close> of \<^verbatim>\<open>record_prediction\<close>.\<close>

fun update_stats :: "string list \<Rightarrow> string \<Rightarrow> string \<Rightarrow> metrics \<Rightarrow> py_error + metrics" where
  "update_stats [] pred truth m = Inr m"
| "update_stats (category # rest) pred truth m =
     (case (if pred = category \<and> truth = category then incr_stat TP category m
            else if pred = category \<and> truth \<noteq> category then incr_stat FP category m
            else if pred \<noteq> category \<and> truth = category then incr_stat FN category m
            else Inr m) of
        Inl e \<Rightarrow> Inl e
      | Inr m' \<Rightarrow> update_stats rest pred truth m')"

text \<open>One iteration of \<^verbatim>\<open>_recalculate_metrics\<close>, on the statistics of one category.\<close>

definition recalculate :: "category_stats \<Rightarrow> category_stats" where
  "recalculate stats =
     (let tp = true_positives stats;
          fp = false_positives stats;
          fn = false_negatives stats;
          p = (if tp + fp > 0 then real_of_int tp / real_of_int (tp + fp) else 0);
          r = (if tp + fn > 0 then real_of_int tp / real_of_int (tp + fn) else 0);
          f1 = (if p + r > 0 then 2 * (p * r) / (p + r) else 0)
      in stats\<lparr>precision := py_round4 p, recall := py_round4 r, f1_score := py_round4 f1\<rparr>)"

fun recalculate_metrics :: "string list \<Rightarrow> metrics \<Rightarrow> py_error + metrics" where
  "recalculate_metrics [] m = Inr m"
| "recalculate_metrics (category # rest) m =
     (case getitem (defaulting m) default_stats (category_stats m) category of
        Inl e \<Rightarrow> Inl e
      | Inr stats \<Rightarrow>
          recalculate_metrics rest
            (m\<lparr>category_stats := (category_stats m)(category \<mapsto> recalculate stats)\<rparr>))"

text \<open>\<^verbatim>\<open>self.metrics['confusion_matrix'][ground_truth][predicted] += 1\<close>\<close>

definition confusion_incr :: "string \<Rightarrow> string \<Rightarrow> metrics \<Rightarrow> py_error + metrics" where
  "confusion_incr truth pred m =
     (case getitem (defaulting m) Map.empty (confusion_matrix m) truth of
        Inl e \<Rightarrow> Inl e
      | Inr row \<Rightarrow>
          (case getitem (defaulting m) 0 row pred of
             Inl e \<Rightarrow> Inl e
           | Inr n \<Rightarrow>
               Inr (m\<lparr>confusion_matrix := (confusion_matrix m)(truth \<mapsto> row(pred \<mapsto> n + 1))\<rparr>)))"

text \<open>
  \<^verbatim>\<open>record_prediction\<close>. Writing the metrics file (\<^verbatim>\<open>_save_metrics\<close>) is outside the model.
  When an exception escapes, the model gives the exception and not the partly updated
  metrics.
\<close>

definition record_prediction ::
  "string \<Rightarrow> string option \<Rightarrow> real \<Rightarrow> string \<Rightarrow> metrics \<Rightarrow> py_error + metrics" where
  "record_prediction pred truth confidence document_id m =
     (let m1 = m\<lparr>total_predictions := total_predictions m + 1\<rparr>;
          confidence_bin = real_of_int (py_int (confidence * 10)) / 10;
          entry = \<lparr>predicted = pred, ground_truth = truth,
                   correct = (if truthy_str truth then Some (Some pred = truth) else None),
                   entry_document_id = document_id\<rparr>
      in case getitem (defaulting m1) [] (confidence_bins m1) confidence_bin of
           Inl e \<Rightarrow> Inl e
         | Inr bin \<Rightarrow>
             (let m2 = m1\<lparr>confidence_bins := (confidence_bins m1)(confidence_bin \<mapsto> bin @ [entry])\<rparr>
              in case truth of
                   None \<Rightarrow> Inr m2
                 | Some gt \<Rightarrow>
                     if gt = [] then Inr m2
                     else
                       (case confusion_incr gt pred
                               (m2\<lparr>total_ground_truth := total_ground_truth m2 + 1\<rparr>) of
                          Inl e \<Rightarrow> Inl e
                        | Inr m3 \<Rightarrow>
                            (case update_stats CATEGORIES pred gt m3 of
                               Inl e \<Rightarrow> Inl e
                             | Inr m4 \<Rightarrow> recalculate_metrics CATEGORIES m4))))"




section \<open>GeminiClassifier (classifier.py)\<close>

text \<open>
  The reasoning oracle (\<^verbatim>\<open>self.model.generate_content\<close> followed by \<^verbatim>\<open>json.loads\<close>) is a
  parameter of the model. A call either raises (\<open>Raised\<close>, with the text of the
  exception; this covers an unreachable service and a response that is not JSON), or
  returns the parsed JSON object. The object is whatever the oracle wrote: a key the
  program reads may be absent (\<open>None\<close>). Values of the wrong JSON type are outside the
  model.
\<close>

datatype 'a reply = Raised string | Returned 'a

datatype check_kind = SafetyCheck | ConfidentialCheck | SensitiveCheck

text \<open>
  The prompt of a policy check is a fixed text per kind of check, into which the policy
  context, the pass number and the document content are pasted; the sampling
  temperature is part of the call. The policy context is what
  \<^verbatim>\<open>policy_rag.get_policy_context()\<close> reads from the policy files, a given text here.
\<close>

record request =
  kind :: check_kind
  policy :: string
  pass_number :: int
  content :: string
  temperature :: real

text \<open>
  The JSON object of a check: \<open>flag\<close> is the key \<^verbatim>\<open>is_unsafe\<close>, \<^verbatim>\<open>is_confidential\<close> or
  \<^verbatim>\<open>is_sensitive\<close>, according to the check.
\<close>

record check_result =
  flag :: "bool option"
  confidence :: "real option"
  reasoning :: "string option"
  citation :: "string option"
  pii_found :: "string list option"

type_synonym gemini = "request \<Rightarrow> check_result reply"

definition make_request :: "check_kind \<Rightarrow> string \<Rightarrow> string \<Rightarrow> int \<Rightarrow> request" where
  "make_request k policy_context document_content validation_pass =
     \<lparr>kind = k, policy = policy_context, pass_number = validation_pass,
      content = document_content,
      temperature = (if validation_pass = 1 then 1/10 else 3/10)\<rparr>"

text \<open>
  \<^verbatim>\<open>_check_safety\<close>, \<^verbatim>\<open>_check_confidential\<close> and \<^verbatim>\<open>_check_sensitive\<close>: the oracle's object as
  it is, or the fixed result of the \<^verbatim>\<open>except\<close> branch.
\<close>

definition check_safety :: "gemini \<Rightarrow> string \<Rightarrow> string \<Rightarrow> int \<Rightarrow> check_result" where
  "check_safety model policy_context document_content validation_pass =
     (case model (make_request SafetyCheck policy_context document_content validation_pass) of
        Returned result \<Rightarrow> result
      | Raised e \<Rightarrow> \<lparr>flag = Some False, confidence = Some (1/2),
                      reasoning = Some (''Error: '' @ e), citation = Some [],
                      pii_found = None\<rparr>)"

definition check_confidential :: "gemini \<Rightarrow> string \<Rightarrow> string \<Rightarrow> int \<Rightarrow> check_result" where
  "check_confidential model policy_context document_content validation_pass =
     (case model (make_request ConfidentialCheck policy_context document_content validation_pass) of
        Returned result \<Rightarrow> result
      | Raised e \<Rightarrow> \<lparr>flag = Some False, confidence = Some (1/2),
                      reasoning = Some (''Error: '' @ e), citation = Some [],
                      pii_found = Some []\<rparr>)"

definition check_sensitive :: "gemini \<Rightarrow> string \<Rightarrow> string \<Rightarrow> int \<Rightarrow> check_result" where
  "check_sensitive model policy_context document_content validation_pass =
     (case model (make_request SensitiveCheck policy_context document_content validation_pass) of
        Returned result \<Rightarrow> result
      | Raised e \<Rightarrow> \<lparr>flag = Some False, confidence = Some (1/2),
                      reasoning = Some (''Error: '' @ e), citation = Some [],
                      pii_found = Some []\<rparr>)"

record document =
  doc_id :: string
  full_text :: string
  cached_content :: string

record step_results =
  step_document_id :: string
  step_validation_pass :: int
  safety_check :: check_result
  confidential_check :: "check_result option"
  sensitive_check :: "check_result option"

text \<open>\<^verbatim>\<open>dual_validation_results\<close>: two confidences on consensus, two (category, confidence) otherwise.\<close>

datatype dual_results =
  PassConfidences real real
| PassResults string real string real

text \<open>The text of \<^verbatim>\<open>hitl_reasoning\<close>, kept as which of its two templates and the values pasted in.\<close>

datatype hitl_reasoning =
  HighConfidence real bool real real real
| BelowThreshold real real real "bool option" real real

record ai_result =
  ai_is_safe :: "bool option"
  ai_safety_score :: "real option"
  ai_violations :: "string list option"
  ai_categories :: "string list option"
  severity :: "string option"
  ai_reasoning :: "string option"

record child_result =
  is_child_safe :: "bool option"
  age_appropriate :: "string option"
  concerns :: "string list option"
  reason :: "string option"

record pattern_result =
  flagged :: bool
  pattern_categories :: "string list"
  pattern_violations :: "string list"

record safety_detail =
  pattern_check :: pattern_result
  ai_check :: ai_result
  child_safety_check :: child_result

text \<open>
  The result of \<^verbatim>\<open>validate\<close>; its key \<^verbatim>\<open>child_safe\<close> is the field \<open>safe_for_children\<close>, the
  name \<open>child_safe\<close> being the key of the classification result.
\<close>

record safety_result =
  is_safe :: bool
  safety_score :: real
  violations :: "string list"
  categories_flagged :: "string list"
  recommendations :: "string list"
  safe_for_children :: bool
  detail :: safety_detail

text \<open>
  The result dictionary of a classification. A key that only some paths set is an option
  (\<open>None\<close>: the key is absent); \<^verbatim>\<open>validation_consensus\<close> is \<open>None\<close> also when the program
  stores Python's \<^verbatim>\<open>None\<close>, which every reader of the key treats as it treats absence.
  The key \<^verbatim>\<open>step_results\<close> is the field \<open>steps\<close>. \<^verbatim>\<open>processing_time\<close> (a clock reading) and
  \<^verbatim>\<open>enhanced_citations\<close> (page references found in the citation text by a regular
  expression, which nothing else reads) are left out.
\<close>

record classification =
  document_id :: string
  final_category :: string
  confidence_score :: real
  reasoning_summary :: string
  citation_snippet :: string
  steps :: "step_results option"
  validation_pass :: "int option"
  hitl_status :: "string option"
  validation_consensus :: "bool option"
  dual_validation_results :: "dual_results option"
  original_confidence :: "real option"
  hitl_reasoning :: "hitl_reasoning option"
  auto_approval_probability :: "real option"
  safety_details :: "safety_result option"
  child_safe :: "bool option"
  enhanced_features :: "(string \<times> bool) list option"

text \<open>The dictionary literal that \<^verbatim>\<open>_classify_single\<close> returns, with the keys it sets.\<close>

definition single_result ::
  "string \<Rightarrow> string \<Rightarrow> real \<Rightarrow> string \<Rightarrow> string \<Rightarrow> step_results \<Rightarrow> int \<Rightarrow> classification" where
  "single_result did category conf summary snippet results vpass =
     \<lparr>document_id = did, final_category = category, confidence_score = conf,
      reasoning_summary = summary, citation_snippet = snippet,
      steps = Some results, validation_pass = Some vpass,
      hitl_status = None, validation_consensus = None, dual_validation_results = None,
      original_confidence = None, hitl_reasoning = None, auto_approval_probability = None,
      safety_details = None, child_safe = None, enhanced_features = None\<rparr>"

text \<open>
  The return of a flagged check: \<^verbatim>\<open>result['confidence']\<close> and \<^verbatim>\<open>result['reasoning']\<close> raise
  \<^verbatim>\<open>KeyError\<close> when the key is absent, \<^verbatim>\<open>result.get('citation', default)\<close> does not.
\<close>

definition flagged_result ::
  "string \<Rightarrow> string \<Rightarrow> check_result \<Rightarrow> string \<Rightarrow> step_results \<Rightarrow> int
     \<Rightarrow> py_error + classification" where
  "flagged_result did category r default_citation results vpass =
     (case confidence r of
        None \<Rightarrow> Inl KeyError
      | Some conf \<Rightarrow>
          (case reasoning r of
             None \<Rightarrow> Inl KeyError
           | Some summary \<Rightarrow>
               Inr (single_result did category conf summary
                      (case citation r of None \<Rightarrow> default_citation | Some c \<Rightarrow> c)
                      results vpass)))"

text \<open>
  \<^verbatim>\<open>_classify_single\<close>. The first component of the result lists the oracle calls made, in
  order; \<open>cache\<close> is \<^verbatim>\<open>self.cached_content\<close>.
\<close>

definition classify_single ::
  "gemini \<Rightarrow> string \<Rightarrow> (string \<rightharpoonup> string) \<Rightarrow> document \<Rightarrow> int
     \<Rightarrow> request list \<times> (py_error + classification)" where
  "classify_single model policy_context cache document_data vpass =
     (let did = doc_id document_data;
          cached = (case cache did of Some c \<Rightarrow> c | None \<Rightarrow> cached_content document_data);
          safety = check_safety model policy_context cached vpass;
          calls1 = [make_request SafetyCheck policy_context cached vpass];
          results1 = \<lparr>step_document_id = did, step_validation_pass = vpass,
                      safety_check = safety, confidential_check = None,
                      sensitive_check = None\<rparr>
      in case flag safety of
           None \<Rightarrow> (calls1, Inl KeyError)
         | Some True \<Rightarrow>
             (calls1, flagged_result did ''UNSAFE'' safety ''Safety violation detected''
                        results1 vpass)
         | Some False \<Rightarrow>
             (let confidential = check_confidential model policy_context cached vpass;
                  calls2 = calls1 @ [make_request ConfidentialCheck policy_context cached vpass];
                  results2 = results1\<lparr>confidential_check := Some confidential\<rparr>
              in case flag confidential of
                   None \<Rightarrow> (calls2, Inl KeyError)
                 | Some True \<Rightarrow>
                     (calls2, flagged_result did ''CONFIDENTIAL'' confidential
                                ''Confidential content detected'' results2 vpass)
                 | Some False \<Rightarrow>
                     (let sensitive = check_sensitive model policy_context cached vpass;
                          calls3 = calls2 @ [make_request SensitiveCheck policy_context cached vpass];
                          results3 = results2\<lparr>sensitive_check := Some sensitive\<rparr>
                      in case flag sensitive of
                           None \<Rightarrow> (calls3, Inl KeyError)
                         | Some True \<Rightarrow>
                             (calls3, flagged_result did ''SENSITIVE'' sensitive
                                        ''Sensitive content detected'' results3 vpass)
                         | Some False \<Rightarrow>
                             (calls3, Inr (single_result did ''PUBLIC'' (95/100)
                                ''Document contains no unsafe, confidential, or sensitive information. Suitable for public distribution.''
                                ''No restricted content found'' results3 vpass)))))"

text \<open>
  \<^verbatim>\<open>GeminiClassifier.classify\<close>: \<^verbatim>\<open>cache_document\<close>, then one or two passes. It returns the
  oracle calls, the result or the exception, and the cache.
\<close>

definition classify ::
  "config \<Rightarrow> gemini \<Rightarrow> string \<Rightarrow> (string \<rightharpoonup> string) \<Rightarrow> document \<Rightarrow> bool
     \<Rightarrow> request list \<times> (py_error + classification) \<times> (string \<rightharpoonup> string)" where
  "classify cfg model policy_context cache document_data use_dual_validation =
     (let cache' = cache(doc_id document_data \<mapsto> cached_content document_data)
      in if use_dual_validation \<and> DUAL_VALIDATION_ENABLED cfg then
           (case classify_single model policy_context cache' document_data 1 of
              (calls1, Inl e) \<Rightarrow> (calls1, Inl e, cache')
            | (calls1, Inr result1) \<Rightarrow>
                (case classify_single model policy_context cache' document_data 2 of
                   (calls2, Inl e) \<Rightarrow> (calls1 @ calls2, Inl e, cache')
                 | (calls2, Inr result2) \<Rightarrow>
                     if final_category result1 = final_category result2
                        \<and> confidence_score result1 \<ge> CONFIDENCE_THRESHOLD cfg
                        \<and> confidence_score result2 \<ge> CONFIDENCE_THRESHOLD cfg
                     then (calls1 @ calls2,
                           Inr (result1\<lparr>hitl_status := Some ''AUTO_APPROVED'',
                                  validation_consensus := Some True,
                                  dual_validation_results :=
                                    Some (PassConfidences (confidence_score result1)
                                            (confidence_score result2))\<rparr>),
                           cache')
                     else (calls1 @ calls2,
                           Inr (result1\<lparr>hitl_status := Some ''REQUIRES_REVIEW'',
                                  validation_consensus := Some False,
                                  dual_validation_results :=
                                    Some (PassResults
                                            (final_category result1) (confidence_score result1)
                                            (final_category result2) (confidence_score result2))\<rparr>),
                           cache')))
         else
           (case classify_single model policy_context cache' document_data 1 of
              (calls1, Inl e) \<Rightarrow> (calls1, Inl e, cache')
            | (calls1, Inr result) \<Rightarrow>
                (calls1,
                 Inr (result\<lparr>hitl_status :=
                               Some (if confidence_score result < CONFIDENCE_THRESHOLD cfg
                                     then ''REQUIRES_REVIEW'' else ''AUTO_APPROVED''),
                             validation_consensus := None\<rparr>),
                 cache')))"

section \<open>ContentSafetyValidator (content\_safety.py)\<close>

text \<open>
  The three layers consult a regular-expression engine and the oracle; both are
  parameters. \<open>scan\<close> gives, for a content, the categories of \<^verbatim>\<open>unsafe_patterns\<close> one of
  whose patterns matches, in the order of that table, each with its violation message.
  \<open>ai\<close> and \<open>child\<close> are the oracle on the two safety prompts, given the content sample.
  \<open>uniq\<close> is \<^verbatim>\<open>list(set(xs))\<close>, whose order Python leaves open.
\<close>

definition pattern_based_check :: "(string \<Rightarrow> (string \<times> string) list) \<Rightarrow> string \<Rightarrow> pattern_result" where
  "pattern_based_check scan text =
     (let hits = scan text;
          flagged_categories = map fst hits
      in \<lparr>flagged = (length flagged_categories > 0),
          pattern_categories = flagged_categories,
          pattern_violations = map snd hits\<rparr>)"

definition ai_safety_check :: "(string \<Rightarrow> ai_result reply) \<Rightarrow> string \<Rightarrow> ai_result" where
  "ai_safety_check ai text =
     (case ai (if length text > 5000 then take 5000 text else text) of
        Returned result \<Rightarrow> result
      | Raised e \<Rightarrow>
          \<lparr>ai_is_safe = Some False, ai_safety_score = Some (1/2),
           ai_violations = Some [''Safety check failed: '' @ e],
           ai_categories = Some [''check_error''],
           severity = Some ''medium'',
           ai_reasoning = Some ''Unable to complete safety validation''\<rparr>)"

definition child_safety_check_of :: "(string \<Rightarrow> child_result reply) \<Rightarrow> string \<Rightarrow> child_result" where
  "child_safety_check_of child text =
     (case child (if length text > 3000 then take 3000 text else text) of
        Returned result \<Rightarrow> result
      | Raised e \<Rightarrow>
          \<lparr>is_child_safe = Some False, age_appropriate = Some ''18+'',
           concerns = Some [''Unable to verify child safety''],
           reason = Some (''Safety check error: '' @ e)\<rparr>)"

definition generate_recommendations :: "string list \<Rightarrow> string list" where
  "generate_recommendations flagged_categories =
     (let r1 = (if ''violence'' \<in> set flagged_categories
                then [''Content contains violent or threatening material. Mark as UNSAFE and require escalation.'']
                else []);
          r2 = (if ''hate_speech'' \<in> set flagged_categories
                then r1 @ [''Content contains hate speech or discriminatory language. Immediate rejection required.'']
                else r1);
          r3 = (if ''explicit_content'' \<in> set flagged_categories
                then r2 @ [''Explicit or adult content detected. Mark as UNSAFE and restrict access.'']
                else r2);
          r4 = (if ''child_safety'' \<in> set flagged_categories
                then r3 @ [''Child safety concerns identified. URGENT: Escalate to compliance team immediately.'']
                else r3);
          r5 = (if ''dangerous_activities'' \<in> set flagged_categories
                then r4 @ [''Content promotes dangerous activities. Mark as UNSAFE and consider reporting.'']
                else r4);
          r6 = (if ''illegal_content'' \<in> set flagged_categories
                then r5 @ [''Potentially illegal content detected. Legal review required.'']
                else r5)
      in if r6 = [] then [''General safety violation detected. Review required before classification.'']
         else r6)"

text \<open>
  Layer 2 of \<^verbatim>\<open>validate\<close>: from the state after layer 1 (safe so far, violations,
  flagged categories) to the state after layer 2, with the safety score.
\<close>

definition ai_layer ::
  "ai_result \<Rightarrow> bool \<times> string list \<times> string list
     \<Rightarrow> py_error + (bool \<times> string list \<times> string list \<times> real)" where
  "ai_layer ai_results st =
     (case st of (safe1, violations1, categories1) \<Rightarrow>
        (case ai_is_safe ai_results of
           None \<Rightarrow> Inl KeyError
         | Some True \<Rightarrow> Inr (safe1, violations1, categories1, 1)
         | Some False \<Rightarrow>
             (case ai_violations ai_results of
                None \<Rightarrow> Inl KeyError
              | Some vs \<Rightarrow>
                  (case ai_categories ai_results of
                     None \<Rightarrow> Inl KeyError
                   | Some cs \<Rightarrow>
                       (case ai_safety_score ai_results of
                          None \<Rightarrow> Inl KeyError
                        | Some score \<Rightarrow>
                            Inr (False, violations1 @ vs, categories1 @ cs, min 1 score))))))"

text \<open>Layer 3: the child-safety verdict, and the state after it.\<close>

definition child_layer ::
  "child_result \<Rightarrow> bool \<times> string list \<Rightarrow> py_error + (bool \<times> bool \<times> string list)" where
  "child_layer child_safety st =
     (case st of (safe2, violations2) \<Rightarrow>
        (case is_child_safe child_safety of
           None \<Rightarrow> Inl KeyError
         | Some True \<Rightarrow> Inr (True, safe2, violations2)
         | Some False \<Rightarrow>
             (case reason child_safety of
                None \<Rightarrow> Inl KeyError
              | Some why \<Rightarrow> Inr (False, False, violations2 @ [why]))))"

text \<open>
  \<^verbatim>\<open>validate\<close>. When the pattern layer flags, \<^verbatim>\<open>result['categories_flagged']\<close> is the very
  list of \<^verbatim>\<open>pattern_results['categories']\<close>, so what layer 2 appends shows in the detail
  too.
\<close>

definition validate ::
  "(string \<Rightarrow> (string \<times> string) list) \<Rightarrow> (string \<Rightarrow> ai_result reply)
     \<Rightarrow> (string \<Rightarrow> child_result reply) \<Rightarrow> (string list \<Rightarrow> string list)
     \<Rightarrow> string \<Rightarrow> py_error + safety_result" where
  "validate scan ai child uniq text =
     (let pattern_results = pattern_based_check scan text;
          st1 = (if flagged pattern_results
                 then (False, pattern_violations pattern_results,
                       pattern_categories pattern_results)
                 else (True, [], []));
          ai_results = ai_safety_check ai text
      in case ai_layer ai_results st1 of
           Inl e \<Rightarrow> Inl e
         | Inr (safe2, violations2, categories2, score) \<Rightarrow>
             (let child_safety = child_safety_check_of child text
              in case child_layer child_safety (safe2, violations2) of
                   Inl e \<Rightarrow> Inl e
                 | Inr (kid_safe, safe3, violations3) \<Rightarrow>
                     Inr \<lparr>is_safe = safe3,
                          safety_score = score,
                          violations = uniq violations3,
                          categories_flagged = uniq categories2,
                          recommendations =
                            (if \<not> safe3 then generate_recommendations categories2 else []),
                          safe_for_children = kid_safe,
                          detail =
                            \<lparr>pattern_check =
                               (if flagged pattern_results
                                then pattern_results\<lparr>pattern_categories := categories2\<rparr>
                                else pattern_results),
                             ai_check = ai_results,
                             child_safety_check = child_safety\<rparr>\<rparr>))"

section \<open>EnhancedGeminiClassifier (enhanced\_classifier.py)\<close>

text \<open>
  \<^verbatim>\<open>_calibrate_confidence\<close>. \<^verbatim>\<open>category_stats.get(category, {}).get('precision', 0.5)\<close> is
  the recorded precision of the category, and \<open>0.5\<close> when the table has no entry for it.
\<close>

definition calibrate_confidence :: "metrics \<Rightarrow> real \<Rightarrow> string \<Rightarrow> bool \<Rightarrow> real" where
  "calibrate_confidence m raw_confidence category has_consensus =
     (let prec = (case category_stats m category of None \<Rightarrow> 1/2 | Some stats \<Rightarrow> precision stats);
          calibrated = raw_confidence * (7/10 + 3/10 * prec);
          calibrated1 = (if has_consensus then min 1 (calibrated * (11/10)) else calibrated);
          calibrated2 = max 0 (min 1 calibrated1)
      in py_round4 calibrated2)"

record hitl_decision =
  status :: string
  decision_reasoning :: hitl_reasoning
  decision_probability :: real

text \<open>
  \<^verbatim>\<open>_enhanced_hitl_decision\<close>. The score is accumulated as the program does it, one
  \<^verbatim>\<open>+=\<close> after the other; \<^verbatim>\<open>if has_consensus\<close> holds for \<^verbatim>\<open>True\<close> only.
\<close>

definition enhanced_hitl_decision :: "metrics \<Rightarrow> classification \<Rightarrow> safety_result \<Rightarrow> hitl_decision" where
  "enhanced_hitl_decision m classification_result safety =
     (let conf = confidence_score classification_result;
          category = final_category classification_result;
          has_consensus = validation_consensus classification_result;
          score0 = 0;
          score1 = (if conf \<ge> 95/100 then score0 + 4/10
                    else if conf \<ge> 90/100 then score0 + 3/10
                    else if conf \<ge> 85/100 then score0 + 2/10
                    else score0);
          score2 = (if has_consensus = Some True then score1 + 3/10 else score1);
          prec = (case category_stats m category of None \<Rightarrow> 0 | Some stats \<Rightarrow> precision stats);
          score3 = (if prec \<ge> 95/100 then score2 + 2/10
                    else if prec \<ge> 90/100 then score2 + 15/100
                    else score2);
          auto_approval_score = (if safety_score safety \<ge> 95/100 then score3 + 1/10 else score3);
          auto_approval_threshold = 75/100
      in if auto_approval_score \<ge> auto_approval_threshold then
           \<lparr>status = ''AUTO_APPROVED'',
            decision_reasoning =
              HighConfidence conf (has_consensus = Some True) prec (safety_score safety)
                auto_approval_score,
            decision_probability = auto_approval_score\<rparr>
         else
           \<lparr>status = ''REQUIRES_REVIEW'',
            decision_reasoning =
              BelowThreshold auto_approval_score auto_approval_threshold conf has_consensus prec
                (safety_score safety),
            decision_probability = auto_approval_score\<rparr>)"

text \<open>\<^verbatim>\<open>sep.join(xs)\<close>\<close>

fun join :: "string \<Rightarrow> string list \<Rightarrow> string" where
  "join sep [] = []"
| "join sep [x] = x"
| "join sep (x # y # ys) = x @ sep @ join sep (y # ys)"

text \<open>What the classifier talks to, and the state it keeps between documents.\<close>

record services =
  gemini_model :: gemini
  policy_text :: string
  pattern_scan :: "string \<Rightarrow> (string \<times> string) list"
  safety_model :: "string \<Rightarrow> ai_result reply"
  child_model :: "string \<Rightarrow> child_result reply"
  set_order :: "string list \<Rightarrow> string list"

record classifier_state =
  tracker :: metrics
  content_cache :: "string \<rightharpoonup> string"

text \<open>The result dictionary built when the safety validation fails.\<close>

definition unsafe_result :: "string \<Rightarrow> safety_result \<Rightarrow> classification" where
  "unsafe_result did safety =
     \<lparr>document_id = did,
      final_category = ''UNSAFE'',
      confidence_score = 1,
      reasoning_summary =
        ''Content safety validation failed. '' @
        ''Violations: '' @ join '', '' (violations safety) @ ''. '' @
        ''This content has been flagged for: '' @ join '', '' (categories_flagged safety) @ ''.'',
      citation_snippet = ''Multiple safety violations detected'',
      steps = None, validation_pass = None,
      hitl_status = Some ''REQUIRES_REVIEW'',
      validation_consensus = Some True,
      dual_validation_results = None,
      original_confidence = None, hitl_reasoning = None, auto_approval_probability = None,
      safety_details = Some safety,
      child_safe = Some (safe_for_children safety),
      enhanced_features = Some [(''safety_validated'', True), (''accuracy_tracked'', False)]\<rparr>"

text \<open>
  \<^verbatim>\<open>EnhancedGeminiClassifier.classify\<close>. It returns the calls made to the oracle of the
  cascading classifier, and the result with the new state, or the exception. What it
  prints, and step 3 (the enhanced citations), are left out.
\<close>

definition enhanced_classify ::
  "config \<Rightarrow> services \<Rightarrow> classifier_state \<Rightarrow> document \<Rightarrow> string option
     \<Rightarrow> request list \<times> (py_error + classification \<times> classifier_state)" where
  "enhanced_classify cfg sv st document_data truth =
     (let did = doc_id document_data
      in case validate (pattern_scan sv) (safety_model sv) (child_model sv) (set_order sv)
                (full_text document_data) of
           Inl e \<Rightarrow> ([], Inl e)
         | Inr safety \<Rightarrow>
             if \<not> is_safe safety then
               (let result = unsafe_result did safety
                in if truthy_str truth then
                     (case record_prediction ''UNSAFE'' truth 1 did (tracker st) of
                        Inl e \<Rightarrow> ([], Inl e)
                      | Inr m' \<Rightarrow> ([], Inr (result, st\<lparr>tracker := m'\<rparr>)))
                   else ([], Inr (result, st)))
             else
               (case classify cfg (gemini_model sv) (policy_text sv) (content_cache st)
                       document_data True of
                  (calls, Inl e, cache') \<Rightarrow> (calls, Inl e)
                | (calls, Inr result, cache') \<Rightarrow>
                    (let calibrated =
                           calibrate_confidence (tracker st) (confidence_score result)
                             (final_category result) (validation_consensus result = Some True);
                         result1 = result\<lparr>original_confidence := Some (confidence_score result),
                                          confidence_score := calibrated\<rparr>;
                         decision = enhanced_hitl_decision (tracker st) result1 safety;
                         result2 = result1
                           \<lparr>hitl_status := Some (status decision),
                            hitl_reasoning := Some (decision_reasoning decision),
                            auto_approval_probability := Some (decision_probability decision),
                            safety_details := Some safety,
                            child_safe := Some (safe_for_children safety),
                            enhanced_features :=
                              Some [(''safety_validated'', True), (''accuracy_tracked'', True),
                                    (''confidence_calibrated'', True),
                                    (''enhanced_citations'', True),
                                    (''advanced_hitl_logic'', True)]\<rparr>
                     in if truthy_str truth then
                          (case record_prediction (final_category result2) truth
                                  (confidence_score result2) did (tracker st) of
                             Inl e \<Rightarrow> (calls, Inl e)
                           | Inr m' \<Rightarrow>
                               (calls, Inr (result2, \<lparr>tracker = m', content_cache = cache'\<rparr>)))
                        else
                          (calls, Inr (result2,
                                       \<lparr>tracker = tracker st, content_cache = cache'\<rparr>)))))"

section \<open>BatchProcessor (batch\_processor.py)\<close>

text \<open>
  A file result and a job, without the clock readings and without \<^verbatim>\<open>current_file\<close>, which
  only tells which file a worker picked up last.
\<close>

record file_result =
  result_file :: string
  error :: "string option"
  file_status :: string
  result_document_id :: "string option"
  result_classification :: "string option"
  result_confidence :: "real option"
  result_hitl_status :: "string option"

record batch_job =
  job_id :: string
  files :: "string list"
  total_files :: nat
  processed_files :: int
  failed_files :: int
  results :: "file_result list"
  job_status :: string

definition new_job :: "string \<Rightarrow> string list \<Rightarrow> batch_job" where
  "new_job jid fs = \<lparr>job_id = jid, files = fs, total_files = length fs, processed_files = 0,
     failed_files = 0, results = [], job_status = ''QUEUED''\<rparr>"

definition create_batch_job ::
  "(string \<rightharpoonup> batch_job) \<Rightarrow> string \<Rightarrow> string list \<Rightarrow> (string \<rightharpoonup> batch_job)" where
  "create_batch_job jobs jid fs = jobs(jid \<mapsto> new_job jid fs)"

text \<open>
  \<^verbatim>\<open>_process_single_file\<close>. \<open>run\<close> stands for \<^verbatim>\<open>DocumentProcessor(path).process()\<close> followed
  by \<^verbatim>\<open>self.classifier.classify\<close>: it gives the classification, or \<open>Inl\<close> of \<^verbatim>\<open>str(e)\<close> for
  the exception \<open>e\<close> raised on the way. The function catches every exception, so the
  worker's future always holds a result (\<open>Inr\<close>).
\<close>

definition process_single_file ::
  "(string \<Rightarrow> string + classification) \<Rightarrow> string \<Rightarrow> string + file_result" where
  "process_single_file run file_path =
     (case run file_path of
        Inr classification_result \<Rightarrow>
          Inr \<lparr>result_file = file_path, error = None, file_status = ''SUCCESS'',
               result_document_id = Some (document_id classification_result),
               result_classification = Some (final_category classification_result),
               result_confidence = Some (confidence_score classification_result),
               result_hitl_status = hitl_status classification_result\<rparr>
      | Inl e \<Rightarrow>
          Inr \<lparr>result_file = file_path, error = Some e, file_status = ''FAILED'',
               result_document_id = None, result_classification = None,
               result_confidence = None, result_hitl_status = None\<rparr>)"

text \<open>
  The loop over \<^verbatim>\<open>as_completed(future_to_file)\<close>: the files in the order in which their
  workers finish. \<^verbatim>\<open>result.get('error')\<close> is tested for truth.
\<close>

fun collect :: "(string \<Rightarrow> string + file_result) \<Rightarrow> string list \<Rightarrow> batch_job \<Rightarrow> batch_job" where
  "collect worker [] job = job"
| "collect worker (file_path # rest) job =
     collect worker rest
       (case worker file_path of
          Inr result \<Rightarrow>
            job\<lparr>results := results job @ [result],
                processed_files := processed_files job + 1,
                failed_files := (if truthy_str (error result) then failed_files job + 1
                                 else failed_files job)\<rparr>
        | Inl e \<Rightarrow>
            job\<lparr>results := results job @
                   [\<lparr>result_file = file_path, error = Some e, file_status = ''FAILED'',
                     result_document_id = None, result_classification = None,
                     result_confidence = None, result_hitl_status = None\<rparr>],
                failed_files := failed_files job + 1,
                processed_files := processed_files job + 1\<rparr>)"

text \<open>
  \<^verbatim>\<open>process_batch\<close>. The executor is given the job's files; \<open>as_completed\<close> is the order in
  which it hands them back, some permutation of what it was given. A failure of the
  thread pool itself is outside the model.
\<close>

definition process_batch ::
  "(string \<Rightarrow> string + classification) \<Rightarrow> (string list \<Rightarrow> string list)
     \<Rightarrow> (string \<rightharpoonup> batch_job) \<Rightarrow> string
     \<Rightarrow> (string + batch_job) \<times> (string \<rightharpoonup> batch_job)" where
  "process_batch run as_completed jobs jid =
     (case jobs jid of
        None \<Rightarrow> (Inl ''Job not found'', jobs)
      | Some job \<Rightarrow>
          (let job1 = job\<lparr>job_status := ''PROCESSING''\<rparr>;
               job2 = collect (process_single_file run) (as_completed (files job1)) job1;
               job3 = job2\<lparr>job_status := ''COMPLETED''\<rparr>
           in (Inr job3, jobs(jid \<mapsto> job3))))"

section \<open>Statements of the specification, for comparison\<close>







section \<open>Scripted collaborators for the worked examples\<close>

text \<open>
  Stub oracles with scripted verdicts, a document and a safety result, on which the
  theorems below are run.
\<close>

definition example_document :: document where
  "example_document =
     \<lparr>doc_id = ''DOC_1'', full_text = ''quarterly report'', cached_content = ''quarterly report''\<rparr>"

definition unreachable :: "'q \<Rightarrow> 'a reply" where
  "unreachable q = Raised ''503 service unavailable''"

definition verdict :: "bool \<Rightarrow> real \<Rightarrow> check_result" where
  "verdict flagged_by_check conf =
     \<lparr>flag = Some flagged_by_check, confidence = Some conf, reasoning = Some ''as scripted'',
      citation = Some ''Page 1'', pii_found = Some []\<rparr>"


text \<open>Both passes find the document confidential, with confidences 0.92 and 0.93.\<close>

definition agreeing_model :: gemini where
  "agreeing_model q =
     (case kind q of
        SafetyCheck \<Rightarrow> Returned (verdict False (99/100))
      | ConfidentialCheck \<Rightarrow>
          Returned (verdict True (if pass_number q = 1 then 92/100 else 93/100))
      | SensitiveCheck \<Rightarrow> Returned (verdict False (90/100)))"

text \<open>Pass 1 finds the document confidential, pass 2 finds it sensitive, both with 0.95.\<close>

definition disagreeing_model :: gemini where
  "disagreeing_model q =
     (case kind q of
        SafetyCheck \<Rightarrow> Returned (verdict False (99/100))
      | ConfidentialCheck \<Rightarrow> Returned (verdict (pass_number q = 1) (95/100))
      | SensitiveCheck \<Rightarrow> Returned (verdict True (95/100)))"

text \<open>No check flags.\<close>

definition quiet_model :: gemini where
  "quiet_model q = Returned (verdict False (90/100))"

definition safe_ai :: "string \<Rightarrow> ai_result reply" where
  "safe_ai sample =
     Returned \<lparr>ai_is_safe = Some True, ai_safety_score = Some 1, ai_violations = Some [],
               ai_categories = Some [], severity = Some ''low'',
               ai_reasoning = Some ''nothing found''\<rparr>"

definition safe_child :: "string \<Rightarrow> child_result reply" where
  "safe_child sample =
     Returned \<lparr>is_child_safe = Some True, age_appropriate = Some ''all_ages'',
               concerns = Some [], reason = Some ''nothing found''\<rparr>"

text \<open>A pattern layer that flags violence, with oracles that find nothing.\<close>

definition violent_scan :: "string \<Rightarrow> (string \<times> string) list" where
  "violent_scan sample = [(''violence'', ''violence: Pattern match found'')]"

definition example_services :: "gemini \<Rightarrow> (string \<Rightarrow> (string \<times> string) list) \<Rightarrow> services" where
  "example_services model scan =
     \<lparr>gemini_model = model, policy_text = ''POLICY'', pattern_scan = scan,
      safety_model = safe_ai, child_model = safe_child, set_order = remdups\<rparr>"

definition fresh_state :: classifier_state where
  "fresh_state = \<lparr>tracker = load_metrics, content_cache = Map.empty\<rparr>"

text \<open>The safety result of a document on which no layer finds anything.\<close>

definition clean_safety :: safety_result where
  "clean_safety =
     \<lparr>is_safe = True, safety_score = 1, violations = [], categories_flagged = [],
      recommendations = [], safe_for_children = True,
      detail = \<lparr>pattern_check = \<lparr>flagged = False, pattern_categories = [],
                                   pattern_violations = []\<rparr>,
                ai_check = \<lparr>ai_is_safe = Some True, ai_safety_score = Some 1,
                            ai_violations = Some [], ai_categories = Some [],
                            severity = Some ''low'', ai_reasoning = Some ''nothing found''\<rparr>,
                child_safety_check = \<lparr>is_child_safe = Some True,
                                      age_appropriate = Some ''all_ages'',
                                      concerns = Some [], reason = Some ''nothing found''\<rparr>\<rparr>\<rparr>"

text \<open>
  A batch of five files. Processing \<^verbatim>\<open>c.pdf\<close> raises an exception whose \<^verbatim>\<open>str\<close> is the
  given message; the other files are classified.
\<close>

definition five_files :: "string list" where
  "five_files = [''a.pdf'', ''b.pdf'', ''c.pdf'', ''d.pdf'', ''e.pdf'']"

definition scripted_classification :: "string \<Rightarrow> classification" where
  "scripted_classification path =
     \<lparr>document_id = ''DOC_'' @ path, final_category = ''PUBLIC'', confidence_score = 95/100,
      reasoning_summary = ''as scripted'', citation_snippet = ''Page 1'',
      steps = None, validation_pass = Some 1,
      hitl_status = Some ''AUTO_APPROVED'', validation_consensus = Some True,
      dual_validation_results = Some (PassConfidences (95/100) (95/100)),
      original_confidence = Some (95/100), hitl_reasoning = None,
      auto_approval_probability = Some (80/100),
      safety_details = Some clean_safety, child_safe = Some True,
      enhanced_features = None\<rparr>"

definition failing_run :: "string \<Rightarrow> string \<Rightarrow> string + classification" where
  "failing_run message path =
     (if path = ''c.pdf'' then Inl message else Inr (scripted_classification path))"

section \<open>The accuracy tracker: what a recorded prediction changes\<close>

lemma getitem_default: "getitem True v0 d k = Inr (case d k of Some v \<Rightarrow> v | None \<Rightarrow> v0)"
  by (simp add: getitem_def split: option.splits)



lemma incr_stat_total: "defaulting m \<Longrightarrow> \<exists>m'. incr_stat c category m = Inr m'"
  by (simp add: incr_stat_def getitem_default)


lemma update_stats_total:
  "defaulting m \<Longrightarrow> \<exists>m'. update_stats cats p t m = Inr m' \<and> defaulting m'"
proof (induction cats arbitrary: m)
  case Nil then show ?case by simp
next
  case (Cons a cats)
  have "\<exists>m1. (if p = a \<and> t = a then incr_stat TP a m
            else if p = a \<and> t \<noteq> a then incr_stat FP a m
            else if p \<noteq> a \<and> t = a then incr_stat FN a m
            else Inr m) = Inr m1 \<and> defaulting m1"
    using Cons.prems by (auto simp: incr_stat_def getitem_default)
  then obtain m1 where s: "(if p = a \<and> t = a then incr_stat TP a m
            else if p = a \<and> t \<noteq> a then incr_stat FP a m
            else if p \<noteq> a \<and> t = a then incr_stat FN a m
            else Inr m) = Inr m1" and d: "defaulting m1" by blast
  from Cons.IH[OF d] obtain m' where "update_stats cats p t m1 = Inr m'" "defaulting m'" by blast
  with s show ?case by simp
qed


lemma recalculate_metrics_total:
  "defaulting m \<Longrightarrow> \<exists>m'. recalculate_metrics cats m = Inr m'"
  by (induction cats arbitrary: m) (simp_all add: getitem_default)













lemma record_prediction_total:
  assumes "defaulting m"
  shows "\<exists>m'. record_prediction p t conf d m = Inr m'"
proof -
  have conf: "\<And>g x m0. defaulting m0 \<Longrightarrow> \<exists>m3. confusion_incr g x m0 = Inr m3 \<and> defaulting m3"
    by (simp add: confusion_incr_def getitem_default)
  show ?thesis
  proof (cases "truthy_str t")
    case False
    then show ?thesis using assms
      by (cases t) (simp_all add: record_prediction_def Let_def getitem_default)
  next
    case True
    then obtain gt where t: "t = Some gt" "gt \<noteq> []" by (cases t) auto
    let ?m2 = "m\<lparr>total_predictions := total_predictions m + 1,
        confidence_bins := (confidence_bins m)(real_of_int (py_int (conf * 10)) / 10 \<mapsto>
          (case confidence_bins m (real_of_int (py_int (conf * 10)) / 10) of Some v \<Rightarrow> v | None \<Rightarrow> []) @
          [\<lparr>predicted = p, ground_truth = Some gt, correct = Some (p = gt), entry_document_id = d\<rparr>]),
        total_ground_truth := total_ground_truth m + 1\<rparr>"
    have "defaulting ?m2" using assms by simp
    from conf[OF this] obtain m3 where m3: "confusion_incr gt p ?m2 = Inr m3" "defaulting m3" by blast
    from update_stats_total[OF m3(2)] obtain m4 where
      m4: "update_stats CATEGORIES p gt m3 = Inr m4" "defaulting m4" by blast
    from recalculate_metrics_total[OF m4(2)] obtain m5 where
      m5: "recalculate_metrics CATEGORIES m4 = Inr m5" by blast
    show ?thesis using assms t m3(1) m4(1) m5
      by (simp add: record_prediction_def Let_def getitem_default)
  qed
qed





section \<open>Claims about the accuracy tracker\<close>







section \<open>Claims about calibration and the HITL decision\<close>






section \<open>Claims about the cascading classifier\<close>

lemmas classifier_eval = classify_single_def flagged_result_def single_result_def
  check_safety_def check_confidential_def check_sensitive_def make_request_def verdict_def
  example_document_def default_config_def Let_def

text \<open>
  Claim C2. In dual-validation mode, when both passes return, the classifier returns the
  result of pass 1 with three keys set. The consensus flag is true exactly when the two
  categories are equal and both confidences reach the threshold; then the status is
  AUTO\_APPROVED and the two confidences are recorded; otherwise the flag is false, the
  status is REQUIRES\_REVIEW and both passes' category and confidence are recorded. With
  the threshold 0.9, equal categories with confidences 0.92 and 0.93 give consensus;
  different categories with confidences 0.95 and 0.95 give none.
\<close>

theorem dual_validation_consensus:
  assumes "use_dual \<and> DUAL_VALIDATION_ENABLED cfg"
    and "classify_single model pol (cache(doc_id d \<mapsto> cached_content d)) d 1 = (c1, Inr r1)"
    and "classify_single model pol (cache(doc_id d \<mapsto> cached_content d)) d 2 = (c2, Inr r2)"
  shows "\<exists>r. classify cfg model pol cache d use_dual =
              (c1 @ c2, Inr r, cache(doc_id d \<mapsto> cached_content d))
     \<and> (validation_consensus r = Some True \<longleftrightarrow>
          final_category r1 = final_category r2
          \<and> confidence_score r1 \<ge> CONFIDENCE_THRESHOLD cfg
          \<and> confidence_score r2 \<ge> CONFIDENCE_THRESHOLD cfg)
     \<and> (validation_consensus r = Some True \<longrightarrow>
          r = r1\<lparr>hitl_status := Some ''AUTO_APPROVED'',
                 validation_consensus := Some True,
                 dual_validation_results :=
                   Some (PassConfidences (confidence_score r1) (confidence_score r2))\<rparr>)
     \<and> (validation_consensus r \<noteq> Some True \<longrightarrow>
          r = r1\<lparr>hitl_status := Some ''REQUIRES_REVIEW'',
                 validation_consensus := Some False,
                 dual_validation_results :=
                   Some (PassResults (final_category r1) (confidence_score r1)
                           (final_category r2) (confidence_score r2))\<rparr>)
     \<and> (CONFIDENCE_THRESHOLD cfg = 9/10 \<and> final_category r1 = final_category r2
          \<and> confidence_score r1 = 92/100 \<and> confidence_score r2 = 93/100 \<longrightarrow>
          validation_consensus r = Some True \<and> hitl_status r = Some ''AUTO_APPROVED'')
     \<and> (final_category r1 \<noteq> final_category r2
          \<and> confidence_score r1 = 95/100 \<and> confidence_score r2 = 95/100 \<longrightarrow>
          validation_consensus r = Some False \<and> hitl_status r = Some ''REQUIRES_REVIEW'')"
proof (cases "final_category r1 = final_category r2
          \<and> confidence_score r1 \<ge> CONFIDENCE_THRESHOLD cfg
          \<and> confidence_score r2 \<ge> CONFIDENCE_THRESHOLD cfg")
  case True
  let ?r = "r1\<lparr>hitl_status := Some ''AUTO_APPROVED'',
                 validation_consensus := Some True,
                 dual_validation_results :=
                   Some (PassConfidences (confidence_score r1) (confidence_score r2))\<rparr>"
  from True assms have run: "classify cfg model pol cache d use_dual =
      (c1 @ c2, Inr ?r, cache(doc_id d \<mapsto> cached_content d))"
    by (simp add: classify_def Let_def)
  have vc: "validation_consensus ?r = Some True" "hitl_status ?r = Some ''AUTO_APPROVED''"
    by simp_all
  show ?thesis
  proof (intro exI[of _ ?r] conjI impI)
    show "classify cfg model pol cache d use_dual =
      (c1 @ c2, Inr ?r, cache(doc_id d \<mapsto> cached_content d))" by (rule run)
    show "(validation_consensus ?r = Some True) =
        (final_category r1 = final_category r2
          \<and> confidence_score r1 \<ge> CONFIDENCE_THRESHOLD cfg
          \<and> confidence_score r2 \<ge> CONFIDENCE_THRESHOLD cfg)"
      using True vc by simp
  qed (use True vc in simp_all)
next
  case False
  let ?r = "r1\<lparr>hitl_status := Some ''REQUIRES_REVIEW'',
                 validation_consensus := Some False,
                 dual_validation_results :=
                   Some (PassResults (final_category r1) (confidence_score r1)
                           (final_category r2) (confidence_score r2))\<rparr>"
  from False assms have run: "classify cfg model pol cache d use_dual =
      (c1 @ c2, Inr ?r, cache(doc_id d \<mapsto> cached_content d))"
    by (auto simp: classify_def Let_def)
  have vc: "validation_consensus ?r = Some False" "hitl_status ?r = Some ''REQUIRES_REVIEW''"
    by simp_all
  show ?thesis
  proof (intro exI[of _ ?r] conjI impI)
    show "classify cfg model pol cache d use_dual =
      (c1 @ c2, Inr ?r, cache(doc_id d \<mapsto> cached_content d))" by (rule run)
    show "(validation_consensus ?r = Some True) =
        (final_category r1 = final_category r2
          \<and> confidence_score r1 \<ge> CONFIDENCE_THRESHOLD cfg
          \<and> confidence_score r2 \<ge> CONFIDENCE_THRESHOLD cfg)"
      using False vc by simp
    show "validation_consensus ?r = Some True" "hitl_status ?r = Some ''AUTO_APPROVED''"
      if "CONFIDENCE_THRESHOLD cfg = 9/10 \<and> final_category r1 = final_category r2
          \<and> confidence_score r1 = 92/100 \<and> confidence_score r2 = 93/100"
      using that False by simp_all
  qed (use vc in simp_all)
qed

text \<open>
  The theorem on two scripted oracles: one whose passes agree on CONFIDENTIAL with 0.92
  and 0.93, one whose passes say CONFIDENTIAL and SENSITIVE with 0.95 each.
\<close>

theorem dual_validation_consensus_witness:
  "DUAL_VALIDATION_ENABLED default_config
   \<and> (\<exists>c r. classify default_config agreeing_model ''POLICY'' Map.empty example_document True =
          (c, Inr r, [''DOC_1'' \<mapsto> ''quarterly report''])
        \<and> final_category r = ''CONFIDENTIAL'' \<and> confidence_score r = 92/100
        \<and> validation_consensus r = Some True \<and> hitl_status r = Some ''AUTO_APPROVED''
        \<and> dual_validation_results r = Some (PassConfidences (92/100) (93/100)))
   \<and> (\<exists>c r. classify default_config disagreeing_model ''POLICY'' Map.empty example_document True =
          (c, Inr r, [''DOC_1'' \<mapsto> ''quarterly report''])
        \<and> final_category r = ''CONFIDENTIAL'' \<and> confidence_score r = 95/100
        \<and> validation_consensus r = Some False \<and> hitl_status r = Some ''REQUIRES_REVIEW''
        \<and> dual_validation_results r =
             Some (PassResults ''CONFIDENTIAL'' (95/100) ''SENSITIVE'' (95/100)))"
proof -
  let ?ch = "Map.empty(doc_id example_document \<mapsto> cached_content example_document)"
  have en: "True \<and> DUAL_VALIDATION_ENABLED default_config" by (simp add: default_config_def)
  have ch: "?ch = [''DOC_1'' \<mapsto> ''quarterly report'']" by (simp add: example_document_def)
  obtain a1 p1 where a1: "classify_single agreeing_model ''POLICY'' ?ch example_document 1 = (a1, Inr p1)"
    and p1: "final_category p1 = ''CONFIDENTIAL''" "confidence_score p1 = 92/100"
    by (simp add: classifier_eval agreeing_model_def)
  obtain a2 p2 where a2: "classify_single agreeing_model ''POLICY'' ?ch example_document 2 = (a2, Inr p2)"
    and p2: "final_category p2 = ''CONFIDENTIAL''" "confidence_score p2 = 93/100"
    by (simp add: classifier_eval agreeing_model_def)
  obtain b1 q1 where b1: "classify_single disagreeing_model ''POLICY'' ?ch example_document 1 = (b1, Inr q1)"
    and q1: "final_category q1 = ''CONFIDENTIAL''" "confidence_score q1 = 95/100"
    by (simp add: classifier_eval disagreeing_model_def)
  obtain b2 q2 where b2: "classify_single disagreeing_model ''POLICY'' ?ch example_document 2 = (b2, Inr q2)"
    and q2: "final_category q2 = ''SENSITIVE''" "confidence_score q2 = 95/100"
    by (simp add: classifier_eval disagreeing_model_def)
  have th: "CONFIDENCE_THRESHOLD default_config = 9/10" by (simp add: default_config_def)
  from dual_validation_consensus[OF en a1 a2] p1 p2 th
  obtain r where r: "classify default_config agreeing_model ''POLICY'' Map.empty example_document True
       = (a1 @ a2, Inr r, ?ch)"
    "validation_consensus r = Some True" "hitl_status r = Some ''AUTO_APPROVED''"
    "r = p1\<lparr>hitl_status := Some ''AUTO_APPROVED'',
                 validation_consensus := Some True,
                 dual_validation_results :=
                   Some (PassConfidences (confidence_score p1) (confidence_score p2))\<rparr>"
    by auto
  from dual_validation_consensus[OF en b1 b2] q1 q2
  obtain s where s: "classify default_config disagreeing_model ''POLICY'' Map.empty example_document True
       = (b1 @ b2, Inr s, ?ch)"
    "validation_consensus s = Some False" "hitl_status s = Some ''REQUIRES_REVIEW''"
    "s = q1\<lparr>hitl_status := Some ''REQUIRES_REVIEW'',
                 validation_consensus := Some False,
                 dual_validation_results :=
                   Some (PassResults (final_category q1) (confidence_score q1)
                           (final_category q2) (confidence_score q2))\<rparr>"
    by auto
  have r': "final_category r = ''CONFIDENTIAL''" "confidence_score r = 92/100"
    "dual_validation_results r = Some (PassConfidences (92/100) (93/100))"
    using r(4) p1 p2 by simp_all
  have s': "final_category s = ''CONFIDENTIAL''" "confidence_score s = 95/100"
    "dual_validation_results s = Some (PassResults ''CONFIDENTIAL'' (95/100) ''SENSITIVE'' (95/100))"
    using s(4) q1 q2 by simp_all
  from en r(1,2,3) r' s(1,2,3) s' show ?thesis unfolding ch by blast
qed

text \<open>
  Claim C3. When none of the three checks flags, the pass returns PUBLIC with confidence
  0.95 and the two fixed texts, after exactly the three oracle calls of the checks: there
  is no call for the fallback.
\<close>

theorem no_flag_is_public:
  assumes "cached = (case cache (doc_id d) of Some c \<Rightarrow> c | None \<Rightarrow> cached_content d)"
    and "flag (check_safety model pol cached vpass) = Some False"
    and "flag (check_confidential model pol cached vpass) = Some False"
    and "flag (check_sensitive model pol cached vpass) = Some False"
  shows "\<exists>r. classify_single model pol cache d vpass =
           ([make_request SafetyCheck pol cached vpass,
             make_request ConfidentialCheck pol cached vpass,
             make_request SensitiveCheck pol cached vpass], Inr r)
         \<and> final_category r = ''PUBLIC''
         \<and> confidence_score r = 95/100
         \<and> reasoning_summary r = ''Document contains no unsafe, confidential, or sensitive information. Suitable for public distribution.''
         \<and> citation_snippet r = ''No restricted content found''
         \<and> document_id r = doc_id d
         \<and> validation_pass r = Some vpass"
  using assms
  by (simp add: classify_single_def Let_def single_result_def)

text \<open>The theorem on an oracle that never flags.\<close>

theorem no_flag_is_public_witness:
  "flag (check_safety quiet_model ''POLICY'' ''quarterly report'' 1) = Some False
   \<and> flag (check_confidential quiet_model ''POLICY'' ''quarterly report'' 1) = Some False
   \<and> flag (check_sensitive quiet_model ''POLICY'' ''quarterly report'' 1) = Some False
   \<and> (\<exists>r. classify_single quiet_model ''POLICY'' Map.empty example_document 1 =
           ([make_request SafetyCheck ''POLICY'' ''quarterly report'' 1,
             make_request ConfidentialCheck ''POLICY'' ''quarterly report'' 1,
             make_request SensitiveCheck ''POLICY'' ''quarterly report'' 1], Inr r)
         \<and> final_category r = ''PUBLIC'' \<and> confidence_score r = 95/100)"
  using no_flag_is_public[where cached = "''quarterly report''" and cache = Map.empty
      and d = example_document and model = quiet_model and pol = "''POLICY''" and vpass = 1]
  by (simp add: example_document_def quiet_model_def verdict_def check_safety_def
      check_confidential_def check_sensitive_def) blast




section \<open>Claims about the enhanced classifier\<close>

lemmas validator_eval = validate_def pattern_based_check_def ai_safety_check_def
  child_safety_check_of_def ai_layer_def child_layer_def generate_recommendations_def
  example_services_def violent_scan_def safe_ai_def safe_child_def unreachable_def
  example_document_def Let_def

text \<open>What \<^verbatim>\<open>classify\<close> does when the safety validation returns an unsafe verdict.\<close>

lemma unsafe_path:
  assumes "validate (pattern_scan sv) (safety_model sv) (child_model sv) (set_order sv)
             (full_text d) = Inr safety"
    and "\<not> is_safe safety"
  shows "enhanced_classify cfg sv st d truth =
     (if truthy_str truth then
        (case record_prediction ''UNSAFE'' truth 1 (doc_id d) (tracker st) of
           Inl e \<Rightarrow> ([], Inl e)
         | Inr m' \<Rightarrow> ([], Inr (unsafe_result (doc_id d) safety, st\<lparr>tracker := m'\<rparr>)))
      else ([], Inr (unsafe_result (doc_id d) safety, st)))"
  using assms by (simp add: enhanced_classify_def Let_def)

text \<open>
  Claim C1. When the safety validator returns with \<^verbatim>\<open>is_safe\<close> false, every result that
  \<^verbatim>\<open>classify\<close> returns is UNSAFE with confidence 1 and status REQUIRES\_REVIEW; no
  approval probability and no HITL reasoning are set, and no call to the oracle of the
  cascade is made. It does return a result when no ground truth is passed or the
  tracker's tables are \<^verbatim>\<open>defaultdict\<close>s.
\<close>

theorem unsafe_forces_review:
  assumes "validate (pattern_scan sv) (safety_model sv) (child_model sv) (set_order sv)
             (full_text d) = Inr safety"
    and "\<not> is_safe safety"
  shows "(\<forall>calls r st'. enhanced_classify cfg sv st d truth = (calls, Inr (r, st')) \<longrightarrow>
            final_category r = ''UNSAFE'' \<and> confidence_score r = 1
          \<and> hitl_status r = Some ''REQUIRES_REVIEW''
          \<and> auto_approval_probability r = None \<and> hitl_reasoning r = None
          \<and> calls = [])
       \<and> (\<not> truthy_str truth \<or> defaulting (tracker st) \<longrightarrow>
            (\<exists>r st'. enhanced_classify cfg sv st d truth = ([], Inr (r, st'))))
       \<and> fst (enhanced_classify cfg sv st d truth) = []"
proof (intro conjI allI impI)
  note up = unsafe_path[OF assms, of cfg st truth]
  show "fst (enhanced_classify cfg sv st d truth) = []"
    unfolding up by (simp split: sum.splits)
  show "\<exists>r st'. enhanced_classify cfg sv st d truth = ([], Inr (r, st'))"
    if "\<not> truthy_str truth \<or> defaulting (tracker st)"
  proof (cases "truthy_str truth")
    case False
    then show ?thesis unfolding up by simp
  next
    case True
    with that have "defaulting (tracker st)" by simp
    from record_prediction_total[OF this] obtain m' where
      "record_prediction ''UNSAFE'' truth 1 (doc_id d) (tracker st) = Inr m'" by blast
    with True show ?thesis unfolding up by simp
  qed
next
  fix calls r st'
  assume "enhanced_classify cfg sv st d truth = (calls, Inr (r, st'))"
  then have "r = unsafe_result (doc_id d) safety \<and> calls = []"
    unfolding unsafe_path[OF assms, of cfg st truth]
    by (auto split: if_splits sum.splits)
  then show "final_category r = ''UNSAFE''" "confidence_score r = 1"
    "hitl_status r = Some ''REQUIRES_REVIEW''"
    "auto_approval_probability r = None" "hitl_reasoning r = None" "calls = []"
    by (simp_all add: unsafe_result_def)
qed

text \<open>
  The theorem on a document that only the pattern layer flags, on a fresh tracker, without
  and with ground truth. The HITL scorer, had it been asked about the returned result,
  would have approved it: 0.4 for the confidence, 0.3 for the consensus flag and 0.1 for
  the safety score of 1.
\<close>

theorem unsafe_forces_review_witness:
  "\<exists>safety r st' r2 st2.
      validate violent_scan safe_ai safe_child remdups (full_text example_document) = Inr safety
    \<and> \<not> is_safe safety
    \<and> defaulting (tracker fresh_state)
    \<and> enhanced_classify default_config (example_services agreeing_model violent_scan)
         fresh_state example_document None = ([], Inr (r, st'))
    \<and> final_category r = ''UNSAFE'' \<and> confidence_score r = 1
    \<and> hitl_status r = Some ''REQUIRES_REVIEW''
    \<and> status (enhanced_hitl_decision (tracker fresh_state) r safety) = ''AUTO_APPROVED''
    \<and> enhanced_classify default_config (example_services agreeing_model violent_scan)
         fresh_state example_document (Some ''UNSAFE'') = ([], Inr (r2, st2))
    \<and> final_category r2 = ''UNSAFE'' \<and> confidence_score r2 = 1
    \<and> hitl_status r2 = Some ''REQUIRES_REVIEW''"
proof -
  let ?sv = "example_services agreeing_model violent_scan"
  obtain safety where v: "validate (pattern_scan ?sv) (safety_model ?sv) (child_model ?sv)
        (set_order ?sv) (full_text example_document) = Inr safety"
    and u: "\<not> is_safe safety" and sc: "safety_score safety = 1"
    by (simp add: validator_eval)
  have v': "validate violent_scan safe_ai safe_child remdups (full_text example_document) = Inr safety"
    using v by (simp add: example_services_def)
  have d: "defaulting (tracker fresh_state)" by (simp add: fresh_state_def load_metrics_def)
  note A = unsafe_forces_review[OF v u, of default_config fresh_state None]
  note B = unsafe_forces_review[OF v u, of default_config fresh_state "Some ''UNSAFE''"]
  from A obtain r st' where
    r: "enhanced_classify default_config ?sv fresh_state example_document None = ([], Inr (r, st'))"
    by auto
  from A r have rf: "final_category r = ''UNSAFE''" "confidence_score r = 1"
    "hitl_status r = Some ''REQUIRES_REVIEW''" by blast+
  from r have "r = unsafe_result (doc_id example_document) safety"
    unfolding unsafe_path[OF v u] by simp
  then have ap: "status (enhanced_hitl_decision (tracker fresh_state) r safety) = ''AUTO_APPROVED''"
    using sc by (simp add: enhanced_hitl_decision_def unsafe_result_def fresh_state_def
        load_metrics_def Let_def)
  from B d obtain r2 st2 where
    r2: "enhanced_classify default_config ?sv fresh_state example_document (Some ''UNSAFE'')
           = ([], Inr (r2, st2))"
    by auto
  from B r2 have rf2: "final_category r2 = ''UNSAFE''" "confidence_score r2 = 1"
    "hitl_status r2 = Some ''REQUIRES_REVIEW''" by blast+
  from v' u d r rf ap r2 rf2 show ?thesis by blast
qed

text \<open>
  Claim C10. On the same path the result carries \<^verbatim>\<open>validation_consensus = True\<close> although
  no pass has run (there are no dual-validation results, no step results and no pass
  number), and \<^verbatim>\<open>child_safe\<close> is the validator's; the cascading classifier is not called:
  its oracle receives nothing and its document cache is as before.
\<close>

theorem unsafe_result_shape:
  assumes "validate (pattern_scan sv) (safety_model sv) (child_model sv) (set_order sv)
             (full_text d) = Inr safety"
    and "\<not> is_safe safety"
  shows "\<forall>calls r st'. enhanced_classify cfg sv st d truth = (calls, Inr (r, st')) \<longrightarrow>
            validation_consensus r = Some True
          \<and> child_safe r = Some (safe_for_children safety)
          \<and> safety_details r = Some safety
          \<and> dual_validation_results r = None \<and> steps r = None \<and> validation_pass r = None
          \<and> calls = [] \<and> content_cache st' = content_cache st"
proof (intro allI impI)
  fix calls r st'
  assume "enhanced_classify cfg sv st d truth = (calls, Inr (r, st'))"
  then have "r = unsafe_result (doc_id d) safety \<and> calls = []
      \<and> content_cache st' = content_cache st"
    unfolding unsafe_path[OF assms, of cfg st truth]
    by (auto split: if_splits sum.splits)
  then show "validation_consensus r = Some True
          \<and> child_safe r = Some (safe_for_children safety)
          \<and> safety_details r = Some safety
          \<and> dual_validation_results r = None \<and> steps r = None \<and> validation_pass r = None
          \<and> calls = [] \<and> content_cache st' = content_cache st"
    by (simp add: unsafe_result_def)
qed

text \<open>The theorem on a document whose child-safety check cannot reach the oracle.\<close>

theorem unsafe_result_shape_witness:
  "\<exists>safety r st'.
      validate (\<lambda>sample. []) safe_ai unreachable remdups (full_text example_document) = Inr safety
    \<and> \<not> is_safe safety \<and> \<not> safe_for_children safety
    \<and> enhanced_classify default_config
         ((example_services agreeing_model (\<lambda>sample. []))\<lparr>child_model := unreachable\<rparr>)
         fresh_state example_document None = ([], Inr (r, st'))
    \<and> validation_consensus r = Some True \<and> child_safe r = Some False
    \<and> dual_validation_results r = None
    \<and> content_cache st' = Map.empty"
proof -
  let ?sv = "(example_services agreeing_model (\<lambda>sample. []))\<lparr>child_model := unreachable\<rparr>"
  obtain safety where v: "validate (pattern_scan ?sv) (safety_model ?sv) (child_model ?sv)
        (set_order ?sv) (full_text example_document) = Inr safety"
    and u: "\<not> is_safe safety" and k: "\<not> safe_for_children safety"
    by (simp add: validator_eval)
  have v': "validate (\<lambda>sample. []) safe_ai unreachable remdups (full_text example_document) = Inr safety"
    using v by (simp add: example_services_def)
  note A = unsafe_result_shape[OF v u, of default_config fresh_state None]
  have "\<exists>r st'. enhanced_classify default_config ?sv fresh_state example_document None
      = ([], Inr (r, st'))"
    unfolding unsafe_path[OF v u] by simp
  then obtain r st' where
    r: "enhanced_classify default_config ?sv fresh_state example_document None = ([], Inr (r, st'))"
    by blast
  from A r have s: "validation_consensus r = Some True"
    "child_safe r = Some (safe_for_children safety)"
    "dual_validation_results r = None" "content_cache st' = content_cache fresh_state"
    by blast+
  from s(2) k have c: "child_safe r = Some False" by simp
  from s(4) have e: "content_cache st' = Map.empty" by (simp add: fresh_state_def)
  from v' u k r s(1) c s(3) e show ?thesis by blast
qed

section \<open>Claims about the batch processor\<close>

text \<open>
  Every file of the completion order adds one result and one to \<^verbatim>\<open>processed_files\<close>; it adds
  one to \<^verbatim>\<open>failed_files\<close> when its processing raised an exception whose message is not
  empty. The job ends COMPLETED whatever the files did.
\<close>

lemma worker_result:
  "\<exists>r. process_single_file run f = Inr r
     \<and> truthy_str (error r) = (case run f of Inl e \<Rightarrow> e \<noteq> [] | Inr c \<Rightarrow> False)"
  by (cases "run f") (simp_all add: process_single_file_def)

lemma collect_counts:
  "processed_files (collect (process_single_file run) fs job)
     = processed_files job + int (length fs)
   \<and> failed_files (collect (process_single_file run) fs job)
     = failed_files job
       + int (length (filter (\<lambda>f. case run f of Inl e \<Rightarrow> e \<noteq> [] | Inr c \<Rightarrow> False) fs))
   \<and> job_status (collect (process_single_file run) fs job) = job_status job
   \<and> length (results (collect (process_single_file run) fs job))
     = length (results job) + length fs"
proof (induction fs arbitrary: job)
  case Nil
  then show ?case by simp
next
  case (Cons f fs)
  from worker_result[of run f] obtain r where
    r: "process_single_file run f = Inr r"
    and t: "truthy_str (error r) = (case run f of Inl e \<Rightarrow> e \<noteq> [] | Inr c \<Rightarrow> False)"
    by blast
  show ?case
    by (simp add: r t Cons.IH)
qed

lemma process_batch_counts:
  assumes "jobs jid = Some job" and "mset (as_completed (files job)) = mset (files job)"
  shows "\<exists>job'. process_batch run as_completed jobs jid = (Inr job', jobs(jid \<mapsto> job'))
     \<and> job_status job' = ''COMPLETED''
     \<and> processed_files job' = processed_files job + int (length (files job))
     \<and> failed_files job' = failed_files job
         + int (length (filter (\<lambda>f. case run f of Inl e \<Rightarrow> e \<noteq> [] | Inr c \<Rightarrow> False)
                          (files job)))"
proof -
  let ?bad = "\<lambda>f. case run f of Inl e \<Rightarrow> e \<noteq> [] | Inr c \<Rightarrow> False"
  from assms(2) have len: "length (as_completed (files job)) = length (files job)"
    by (rule mset_eq_length)
  have "size (filter_mset ?bad (mset (as_completed (files job))))
      = size (filter_mset ?bad (mset (files job)))"
    using assms(2) by simp
  then have cnt: "length (filter ?bad (as_completed (files job))) = length (filter ?bad (files job))"
    by (simp only: mset_filter[symmetric] size_mset)
  show ?thesis
    using assms(1) by (simp add: process_batch_def Let_def collect_counts len cnt)
qed

lemmas batch_eval = process_batch_def create_batch_job_def new_job_def five_files_def
  failing_run_def process_single_file_def scripted_classification_def Let_def

text \<open>
  Five files, of which \<^verbatim>\<open>c.pdf\<close> raises an exception with a message: the job ends with
  five processed files, one failed file, COMPLETED.
\<close>

lemma named_failure_counted:
  "map_sum id (\<lambda>job. (processed_files job, failed_files job, job_status job))
     (fst (process_batch (failing_run ''cannot open broken document'') rev
             (create_batch_job Map.empty ''job1'' five_files) ''job1''))
   = Inr (5, 1, ''COMPLETED'')"
  by (simp add: batch_eval)

text \<open>
  Claim C9, at an input where the program departs from it. Five files, finishing in the
  reverse of the order of submission, of which \<^verbatim>\<open>c.pdf\<close>
  raises an exception whose \<^verbatim>\<open>str\<close> is empty (a bare \<^verbatim>\<open>MemoryError()\<close>, a failed
  \<^verbatim>\<open>assert\<close>): the failure is caught and its entry has status FAILED, but
  \<^verbatim>\<open>result.get('error')\<close> is the empty string, which is falsy, and \<^verbatim>\<open>failed_files\<close> stays 0.
\<close>

theorem empty_message_failure_not_counted:
  "map_sum id (\<lambda>job. (processed_files job, failed_files job, job_status job,
                        map (\<lambda>r. (result_file r, file_status r, error r)) (results job)))
     (fst (process_batch (failing_run []) rev
             (create_batch_job Map.empty ''job1'' five_files) ''job1''))
   = Inr (5, 0, ''COMPLETED'',
          [(''e.pdf'', ''SUCCESS'', None), (''d.pdf'', ''SUCCESS'', None),
           (''c.pdf'', ''FAILED'', Some []), (''b.pdf'', ''SUCCESS'', None),
           (''a.pdf'', ''SUCCESS'', None)])"
  by (simp add: batch_eval)

end
